theory Spec2Isabelle
  imports Complex_Main
begin

section \<open>Data model of \<open>src/main/app.ts\<close>\<close>

text \<open>
  The orchestrator class \<open>KandoApp\<close> owns a backend, one transparent window, one timer
  handle \<open>hideTimeout\<close> and two settings stores. Everything it does to the outside world
  (Electron, Node timers, the backend, the console, the settings store) is a call on a
  collaborator. The model records every such call, in program order, in the field
  \<open>trace\<close> of the state, and keeps next to it the part of the collaborators' state
  that the calls determine: the window's bounds and visibility, the set of pending Node
  timers, and the \<open>menus\<close> entry of the menu settings document.

  Pixel coordinates and timer delays are integers. The deltas of a \<open>move-pointer\<close>
  message are fractional numbers; a finite double is a real number and
  \<open>Math.floor\<close> is exact on it, so they are modelled as \<open>real\<close>.
\<close>

datatype point = Point (pt_x: int) (pt_y: int)

datatype rectangle =
  Rectangle (rect_x: int) (rect_y: int) (rect_width: int) (rect_height: int)

text \<open>An Electron display; only its work area is read.\<close>

datatype display = Display (workArea: rectangle)

text \<open>\<open>INode\<close> of \<open>../common\<close>: a menu node with its ordered children.\<close>

datatype inode =
  INode (name: string) (icon: string) (iconTheme: string) (children: "inode list")

text \<open>One entry of \<open>IMenuSettings.menus\<close>, as \<open>createExampleMenu\<close> builds it.\<close>

record menu =
  nodes :: inode
  shortcut :: string
  centered :: bool

text \<open>
  What \<open>backend.getWMInfo()\<close> resolves with. \<open>windowClass\<close> is \<open>None\<close> for
  \<open>undefined\<close>.
\<close>

record wminfo =
  pointerX :: int
  pointerY :: int
  windowClass :: "string option"

text \<open>
  The two closures the source hands to \<open>setTimeout\<close>: the one of the
  \<open>hide-window\<close> handler and the focus workaround of \<open>showMenu\<close>.
\<close>

datatype timer_callback = HideCallback | FocusCallback

text \<open>A pending Node timer: the handle \<open>setTimeout\<close> returned, its closure, its delay.\<close>

record timer =
  handle :: nat
  callback :: timer_callback
  delay :: int

text \<open>
  The platform backend, as far as \<open>init\<close> depends on it: whether the promises of
  \<open>init()\<close> and \<open>bindShortcut()\<close> resolve (\<open>None\<close>) or reject with an error
  (\<open>Some e\<close>), and the window type hint.
\<close>

record backend_adapter =
  backend_init :: "string option"
  getWindowType :: string
  bindShortcut :: "string option"

text \<open>
  The parts of Electron the orchestrator queries: the \<open>screen\<close> module and the outcome
  of \<open>window.loadURL\<close>.
\<close>

record electron =
  getDisplayNearestPoint :: "point \<Rightarrow> display"
  getPrimaryDisplay :: display
  loadURL :: "string option"

text \<open>The key sequence of a \<open>simulate-keys\<close> message is relayed unchanged.\<close>

type_synonym keys = string

text \<open>Every call the orchestrator makes on a collaborator.\<close>

datatype effect =
    MenuSettingsSet "menu list"
  | AppSettingsOnChange string
  | BackendInit
  | NewBrowserWindow rectangle string
  | WindowLoadURL
  | IpcMainOn string
  | NewTray
  | TraySetToolTip string
  | TraySetContextMenu "string list"
  | BackendBindShortcut string string string
  | SetTimeout nat timer_callback int
  | ClearTimeout nat
  | WindowSetBounds rectangle
  | ConsoleLog string
  | ConsoleError string
  | WebContentsSendShowMenu inode point
  | WindowShow
  | WindowHide
  | WindowFocus
  | OpenDevTools
  | BackendSimulateKeys keys
  | BackendMovePointer int int
  | ShellOpenExternal string

text \<open>
  The state: the fields of \<open>KandoApp\<close> (\<open>backend\<close>, \<open>hideTimeout\<close>, the \<open>menus\<close>
  of \<open>menuSettings\<close>, the window as \<open>bounds\<close> and \<open>visible\<close>), Node's pending
  timers with the next fresh handle, and the trace. \<open>backend = None\<close> is the source's
  \<open>this.backend === null\<close>; \<open>hideTimeout = None\<close> is a falsy handle
  (\<open>undefined\<close> initially, \<open>null\<close> after the hide closure ran).
\<close>

record app_state =
  backend :: "backend_adapter option"
  hideTimeout :: "nat option"
  menus :: "menu list"
  bounds :: rectangle
  visible :: bool
  timers :: "timer list"
  next_handle :: nat
  trace :: "effect list"

definition emit :: "effect \<Rightarrow> app_state \<Rightarrow> app_state" where
  "emit e s = s\<lparr>trace := trace s @ [e]\<rparr>"

section \<open>Collaborators\<close>

text \<open>
  Node's \<open>setTimeout\<close> returns a fresh handle and adds a pending timer;
  \<open>clearTimeout\<close> removes the timer with the given handle, if it is still pending.
\<close>

definition setTimeout :: "timer_callback \<Rightarrow> int \<Rightarrow> app_state \<Rightarrow> nat \<times> app_state" where
  "setTimeout cb d s =
     (next_handle s,
      emit (SetTimeout (next_handle s) cb d)
        (s\<lparr>timers := timers s @ [\<lparr>handle = next_handle s, callback = cb, delay = d\<rparr>],
           next_handle := Suc (next_handle s)\<rparr>))"

definition clearTimeout :: "nat \<Rightarrow> app_state \<Rightarrow> app_state" where
  "clearTimeout h s =
     emit (ClearTimeout h) (s\<lparr>timers := filter (\<lambda>t. handle t \<noteq> h) (timers s)\<rparr>)"

text \<open>The \<open>BrowserWindow\<close> methods the orchestrator calls.\<close>

definition window_setBounds :: "rectangle \<Rightarrow> app_state \<Rightarrow> app_state" where
  "window_setBounds r s = emit (WindowSetBounds r) (s\<lparr>bounds := r\<rparr>)"

definition window_show :: "app_state \<Rightarrow> app_state" where
  "window_show s = emit WindowShow (s\<lparr>visible := True\<rparr>)"

definition window_hide :: "app_state \<Rightarrow> app_state" where
  "window_hide s = emit WindowHide (s\<lparr>visible := False\<rparr>)"

definition window_focus :: "app_state \<Rightarrow> app_state" where
  "window_focus s = emit WindowFocus s"

text \<open>
  Modelled from the spec: \<open>Settings.get\<close> of \<open>./settings\<close>, a class that is not among
  the sources, called with the key \<open>menus\<close>. By the spec, \<open>get(key)\<close> returns the
  stored value and \<open>set(partial)\<close> merges the given keys into the document so that a
  later \<open>get\<close> observes them. The menu settings document has the single key \<open>menus\<close>.
\<close>

definition menuSettings_get :: "app_state \<Rightarrow> menu list" where
  "menuSettings_get s = menus s"

text \<open>
  Modelled from the spec: \<open>Settings.set\<close> of \<open>./settings\<close>, called with
  \<open>{ menus: ms }\<close>. The stored list is replaced and the call is recorded.
\<close>

definition menuSettings_set :: "menu list \<Rightarrow> app_state \<Rightarrow> app_state" where
  "menuSettings_set ms s = emit (MenuSettingsSet ms) (s\<lparr>menus := ms\<rparr>)"

text \<open>\<open>Math.floor\<close> on a finite number.\<close>

definition Math_floor :: "real \<Rightarrow> int" where
  "Math_floor v = \<lfloor>v\<rfloor>"

section \<open>The handlers of \<open>initRendererIPC\<close>\<close>

text \<open>
  The messages the renderer can send, one constructor per channel that
  \<open>initRendererIPC\<close> listens on. The handlers exist only once \<open>init\<close> has passed
  its backend check and \<open>initWindow\<close> has assigned \<open>this.window\<close>.
\<close>

datatype ipc_message =
    ShowDevTools
  | HideWindow int
  | Log string
  | SimulateKeys keys
  | MovePointer real real
  | OpenUri string

text \<open>
  \<open>hide-window\<close>: the handle of the new timer is assigned to \<open>hideTimeout\<close>; the
  handler calls nothing else.
\<close>

definition on_hide_window :: "int \<Rightarrow> app_state \<Rightarrow> app_state" where
  "on_hide_window d s =
     (case setTimeout HideCallback d s of (h, s') \<Rightarrow> s'\<lparr>hideTimeout := Some h\<rparr>)"

definition on_simulate_keys :: "keys \<Rightarrow> app_state \<Rightarrow> app_state" where
  "on_simulate_keys ks s = emit (BackendSimulateKeys ks) (window_hide s)"

definition on_move_pointer :: "real \<Rightarrow> real \<Rightarrow> app_state \<Rightarrow> app_state" where
  "on_move_pointer dx dy s = emit (BackendMovePointer (Math_floor dx) (Math_floor dy)) s"

definition on_open_uri :: "string \<Rightarrow> app_state \<Rightarrow> app_state" where
  "on_open_uri uri s = emit (ShellOpenExternal uri) (window_hide s)"

fun ipcMain_on :: "ipc_message \<Rightarrow> app_state \<Rightarrow> app_state" where
  "ipcMain_on ShowDevTools s = emit OpenDevTools s"
| "ipcMain_on (HideWindow d) s = on_hide_window d s"
| "ipcMain_on (Log message) s = emit (ConsoleLog message) s"
| "ipcMain_on (SimulateKeys ks) s = on_simulate_keys ks s"
| "ipcMain_on (MovePointer dx dy) s = on_move_pointer dx dy s"
| "ipcMain_on (OpenUri uri) s = on_open_uri uri s"

text \<open>
  A pending timer fires: Node removes it and runs its closure. The hide closure hides
  the window and sets \<open>hideTimeout\<close> to \<open>null\<close>; the focus closure focuses the window.
  A handle that is not pending cannot fire.
\<close>

definition run_callback :: "timer_callback \<Rightarrow> app_state \<Rightarrow> app_state" where
  "run_callback cb s =
     (case cb of
        HideCallback \<Rightarrow> (window_hide s)\<lparr>hideTimeout := None\<rparr>
      | FocusCallback \<Rightarrow> window_focus s)"

definition timer_fires :: "nat \<Rightarrow> app_state \<Rightarrow> app_state" where
  "timer_fires h s =
     (case find (\<lambda>t. handle t = h) (timers s) of
        None \<Rightarrow> s
      | Some t \<Rightarrow>
          run_callback (callback t) (s\<lparr>timers := filter (\<lambda>t. handle t \<noteq> h) (timers s)\<rparr>))"

section \<open>\<open>showMenu\<close>\<close>

text \<open>
  The \<open>then\<close> closure of \<open>showMenu\<close>, run with the resolved \<open>WMInfo\<close>. The result
  is the exception thrown inside the closure, if any, and the state reached. The only
  statement that can throw is \<open>menu.nodes\<close>: \<open>menus[0]\<close> is \<open>undefined\<close> when the
  list is empty, and reading a property of \<open>undefined\<close> is a \<open>TypeError\<close>.
  \<open>if (info.windowClass)\<close> is false for \<open>undefined\<close> and for the empty string.
\<close>

definition TypeError_nodes :: string where
  "TypeError_nodes = ''TypeError: Cannot read properties of undefined (reading 'nodes')''"

definition showMenu_then :: "electron \<Rightarrow> wminfo \<Rightarrow> app_state \<Rightarrow> string option \<times> app_state" where
  "showMenu_then el info s =
     (let s1 = (case hideTimeout s of Some h \<Rightarrow> clearTimeout h s | None \<Rightarrow> s);
          workarea = workArea (getDisplayNearestPoint el (Point (pointerX info) (pointerY info)));
          s2 = window_setBounds
                 (Rectangle (rect_x workarea) (rect_y workarea)
                    (rect_width workarea + 1) (rect_height workarea + 1)) s1;
          s3 = (case windowClass info of
                  Some c \<Rightarrow>
                    if c \<noteq> [] then emit (ConsoleLog (''Currently focused window: '' @ c)) s2
                    else emit (ConsoleLog ''Currently no window is focused.'') s2
                | None \<Rightarrow> emit (ConsoleLog ''Currently no window is focused.'') s2)
      in case menuSettings_get s3 of
           [] \<Rightarrow> (Some TypeError_nodes, s3)
         | m # _ \<Rightarrow>
             (let s4 = emit (WebContentsSendShowMenu (nodes m)
                         (Point (pointerX info - rect_x workarea)
                                (pointerY info - rect_y workarea))) s3;
                  s5 = window_show s4
              in (None, snd (setTimeout FocusCallback 100 s5))))"

text \<open>The \<open>catch\<close> closure: it logs and returns.\<close>

definition showMenu_catch :: "string \<Rightarrow> app_state \<Rightarrow> app_state" where
  "showMenu_catch err s = emit (ConsoleError (''Failed to show menu: '' @ err)) s"

text \<open>
  \<open>showMenu\<close>, given how the promise of \<open>backend.getWMInfo()\<close> settles (\<open>Inl err\<close>:
  it rejects, \<open>Inr info\<close>: it resolves) and the state at that moment. The chain is
  \<open>getWMInfo().then(f).catch(g)\<close>: \<open>g\<close> receives a rejection of \<open>getWMInfo\<close> as well
  as an exception thrown by \<open>f\<close>. The first component of the result is the rejection
  that is left unhandled at the end of the chain.
\<close>

definition showMenu ::
  "electron \<Rightarrow> string + wminfo \<Rightarrow> app_state \<Rightarrow> string option \<times> app_state" where
  "showMenu el settled s =
     (case settled of
        Inl err \<Rightarrow> (None, showMenu_catch err s)
      | Inr info \<Rightarrow>
          (case showMenu_then el info s of
             (None, s') \<Rightarrow> (None, s')
           | (Some err, s') \<Rightarrow> (None, showMenu_catch err s')))"

section \<open>\<open>createExampleMenu\<close>\<close>

definition CHILDREN_PER_LEVEL :: "nat list" where
  "CHILDREN_PER_LEVEL = [8, 7, 7]"

definition TEST_ICONS :: "string list" where
  "TEST_ICONS =
     [''play_circle'', ''public'', ''arrow_circle_right'', ''terminal'',
      ''settings'', ''apps'', ''arrow_circle_left'', ''fullscreen'']"

text \<open>The decimal digits of a number, as the template literal \<open>${i}\<close> prints it.\<close>

fun number_toString :: "nat \<Rightarrow> string" where
  "number_toString n =
     (if n < 10 then [char_of (48 + n)]
      else number_toString (n div 10) @ [char_of (48 + n mod 10)])"

text \<open>
  \<open>addChildren(parent, level)\<close> mutates \<open>parent\<close>; the model returns the mutated node.
  Each child is pushed and then itself filled by the recursive call, which the loop over
  \<open>i\<close> does for \<open>i = 0, ..., CHILDREN_PER_LEVEL[level] - 1\<close>.
\<close>

function addChildren :: "inode \<Rightarrow> nat \<Rightarrow> inode" where
  "addChildren parent level =
     (if level < length CHILDREN_PER_LEVEL then
        INode (name parent) (icon parent) (iconTheme parent)
          (map (\<lambda>i. addChildren
                  (INode (name parent @ '' '' @ number_toString i)
                     (TEST_ICONS ! (i mod length TEST_ICONS))
                     ''material-symbols-rounded'' [])
                  (level + 1))
             [0 ..< CHILDREN_PER_LEVEL ! level])
      else parent)"
  by pat_completeness auto
termination
  by (relation "measure (\<lambda>(parent, level). length CHILDREN_PER_LEVEL - level)") auto

definition createExampleMenu :: menu where
  "createExampleMenu =
     \<lparr>nodes = addChildren (INode ''Node'' ''open_with'' ''material-symbols-rounded'' []) 0,
      shortcut = ''Control+Space'',
      centered = False\<rparr>"

section \<open>\<open>init\<close>\<close>

text \<open>
  \<open>initWindow\<close> creates the window hidden on the primary display's work area and
  assigns it to \<open>this.window\<close> once \<open>loadURL\<close> has resolved.
\<close>

definition initWindow ::
  "electron \<Rightarrow> backend_adapter \<Rightarrow> app_state \<Rightarrow> string option \<times> app_state" where
  "initWindow el b s =
     (let r = Rectangle (rect_x (workArea (getPrimaryDisplay el)))
                (rect_y (workArea (getPrimaryDisplay el)))
                (rect_width (workArea (getPrimaryDisplay el)) + 1)
                (rect_height (workArea (getPrimaryDisplay el)) + 1);
          s1 = emit WindowLoadURL (emit (NewBrowserWindow r (getWindowType b)) s)
      in case loadURL el of
           Some err \<Rightarrow> (Some err, s1)
         | None \<Rightarrow> (None, s1\<lparr>bounds := r, visible := False\<rparr>))"

definition initRendererIPC :: "app_state \<Rightarrow> app_state" where
  "initRendererIPC s =
     emit (IpcMainOn ''open-uri'')
       (emit (IpcMainOn ''move-pointer'')
          (emit (IpcMainOn ''simulate-keys'')
             (emit (IpcMainOn ''log'')
                (emit (IpcMainOn ''hide-window'')
                   (emit (IpcMainOn ''show-dev-tools'') s)))))"

text \<open>
  \<open>init\<close> is an async function: a \<open>throw\<close> and a rejected \<open>await\<close> both reject its
  promise and end it there. The result is that rejection, if any, and the state reached.
\<close>

definition init :: "electron \<Rightarrow> app_state \<Rightarrow> string option \<times> app_state" where
  "init el s =
     (case backend s of
        None \<Rightarrow> (Some ''Error: No backend found.'', s)
      | Some b \<Rightarrow>
          (let s1 = (if length (menuSettings_get s) = 0
                     then menuSettings_set [createExampleMenu] s else s);
               s2 = emit (AppSettingsOnChange ''editorTheme'')
                      (emit (AppSettingsOnChange ''menuTheme'') s1);
               s3 = emit BackendInit s2
           in case backend_init b of
                Some err \<Rightarrow> (Some err, s3)
              | None \<Rightarrow>
                  (case initWindow el b s3 of
                     (Some err, s4) \<Rightarrow> (Some err, s4)
                   | (None, s4) \<Rightarrow>
                       (let s5 = initRendererIPC s4;
                            s6 = emit (TraySetContextMenu [''Open (Control + Space)'', ''Quit''])
                                   (emit (TraySetToolTip ''Kando'') (emit NewTray s5));
                            s7 = emit (BackendBindShortcut ''prototype_trigger''
                                         ''Trigger the Kando prototype''
                                         ''CommandOrControl+Space'') s6
                        in (bindShortcut b, s7)))))"

section \<open>Runs of the orchestrator\<close>

text \<open>
  After \<open>init\<close> the orchestrator reacts to three kinds of events, one at a time on the
  event loop: the promise of a \<open>showMenu\<close> call settles, a message of the renderer
  arrives, a pending timer fires.
\<close>

datatype event =
    ShowMenu "string + wminfo"
  | Ipc ipc_message
  | TimerFires nat

fun step :: "electron \<Rightarrow> event \<Rightarrow> app_state \<Rightarrow> app_state" where
  "step el (ShowMenu settled) s = snd (showMenu el settled s)"
| "step el (Ipc m) s = ipcMain_on m s"
| "step el (TimerFires h) s = timer_fires h s"

fun run :: "electron \<Rightarrow> event list \<Rightarrow> app_state \<Rightarrow> app_state" where
  "run el [] s = s"
| "run el (e # es) s = run el es (step el e s)"

text \<open>The hide timers that are pending in a state.\<close>

definition pending_hide_timers :: "app_state \<Rightarrow> timer list" where
  "pending_hide_timers s = filter (\<lambda>t. callback t = HideCallback) (timers s)"

text \<open>
  A concrete setup: one display with work area \<open>(0, 0, 1920, 1080)\<close>, a backend whose
  promises resolve, and the state of a freshly constructed \<open>KandoApp\<close> whose menu
  settings hold the default \<open>menus: []\<close>. \<open>started\<close> is the state \<open>init\<close> leaves.
\<close>

definition single_display :: electron where
  "single_display =
     \<lparr>getDisplayNearestPoint = (\<lambda>p. Display (Rectangle 0 0 1920 1080)),
      getPrimaryDisplay = Display (Rectangle 0 0 1920 1080),
      loadURL = None\<rparr>"

definition working_backend :: backend_adapter where
  "working_backend = \<lparr>backend_init = None, getWindowType = ''dock'', bindShortcut = None\<rparr>"

definition constructed :: app_state where
  "constructed =
     \<lparr>backend = Some working_backend, hideTimeout = None, menus = [],
      bounds = Rectangle 0 0 0 0, visible = False, timers = [], next_handle = 0,
      trace = []\<rparr>"

definition started :: app_state where
  "started = snd (init single_display constructed)"

text \<open>
  A second setup with two displays side by side: the left one has work area
  \<open>(0, 0, 1920, 1040)\<close>, the right one \<open>(1920, 0, 2560, 1400)\<close>.
\<close>

definition two_displays :: electron where
  "two_displays =
     \<lparr>getDisplayNearestPoint =
        (\<lambda>p. if pt_x p < 1920 then Display (Rectangle 0 0 1920 1040)
             else Display (Rectangle 1920 0 2560 1400)),
      getPrimaryDisplay = Display (Rectangle 0 0 1920 1040),
      loadURL = None\<rparr>"

section \<open>Notions of the specification\<close>

text \<open>
  Truncation toward zero, in the specification's words: the fractional part is dropped,
  so a negative number is rounded up.
\<close>

definition truncate_toward_zero :: "real \<Rightarrow> int" where
  "truncate_toward_zero v = (if 0 \<le> v then \<lfloor>v\<rfloor> else \<lceil>v\<rceil>)"

text \<open>The \<open>show-menu\<close> messages sent to the renderer in a trace, in order.\<close>

fun show_menu_messages :: "effect list \<Rightarrow> (inode \<times> point) list" where
  "show_menu_messages [] = []"
| "show_menu_messages (WebContentsSendShowMenu n p # es) = (n, p) # show_menu_messages es"
| "show_menu_messages (e # es) = show_menu_messages es"

section \<open>Basic facts\<close>

lemma show_menu_messages_append:
  "show_menu_messages (es @ fs) = show_menu_messages es @ show_menu_messages fs"
  by (induction es rule: show_menu_messages.induct) simp_all

lemmas started_defs =
  started_def init_def constructed_def single_display_def working_backend_def
  initWindow_def initRendererIPC_def emit_def menuSettings_get_def menuSettings_set_def Let_def

lemma started_state:
  "hideTimeout started = None"
  "menus started = [createExampleMenu]"
  "timers started = []"
  "next_handle started = 0"
  "visible started = False"
  "bounds started = Rectangle 0 0 1921 1081"
  by (simp_all add: started_defs)

lemma started_no_messages: "show_menu_messages (trace started) = []"
  by (simp add: started_defs)

lemma root_has_eight_children: "length (children (nodes createExampleMenu)) = 8"
  by (simp add: createExampleMenu_def CHILDREN_PER_LEVEL_def addChildren.simps [of _ 0]
      del: addChildren.simps)

lemmas showMenu_defs =
  showMenu_def showMenu_then_def showMenu_catch_def clearTimeout_def setTimeout_def
  window_setBounds_def window_show_def menuSettings_get_def emit_def Let_def

section \<open>The \<open>move-pointer\<close> relay\<close>

text \<open>
  C1, as amended. For every \<open>move-pointer\<close> message with deltas \<open>dx\<close> and \<open>dy\<close>, the
  handler calls \<open>backend.movePointer\<close> exactly once, with each delta rounded down to the
  next integer (\<open>Math.floor\<close>, rounding toward negative infinity). For a delta that is
  not negative this is truncation toward zero.
\<close>

theorem move_pointer_floor:
  "trace (ipcMain_on (MovePointer dx dy) s) = trace s @ [BackendMovePointer \<lfloor>dx\<rfloor> \<lfloor>dy\<rfloor>]
   \<and> (0 \<le> dx \<longrightarrow> \<lfloor>dx\<rfloor> = truncate_toward_zero dx)
   \<and> (0 \<le> dy \<longrightarrow> \<lfloor>dy\<rfloor> = truncate_toward_zero dy)"
  by (simp add: on_move_pointer_def Math_floor_def emit_def truncate_toward_zero_def)

text \<open>The deltas \<open>(2.9, 0.5)\<close> reach the backend as \<open>(2, 0)\<close>.\<close>

theorem move_pointer_floor_witness:
  "(0::real) \<le> 29 / 10 \<and> (0::real) \<le> 1 / 2
   \<and> trace (ipcMain_on (MovePointer (29 / 10) (1 / 2)) started)
       = trace started @ [BackendMovePointer 2 0]
   \<and> truncate_toward_zero (29 / 10) = 2 \<and> truncate_toward_zero (1 / 2) = 0"
  using move_pointer_floor [of "29 / 10" "1 / 2" started] by simp

text \<open>
  C1, as stated, fails: the deltas \<open>(2.9, -2.9)\<close> reach the backend as \<open>(2, -3)\<close>,
  while truncation toward zero gives \<open>(2, -2)\<close>.
\<close>

theorem move_pointer_truncation_counterexample:
  "trace (ipcMain_on (MovePointer (29 / 10) (- (29 / 10))) started)
     = trace started @ [BackendMovePointer 2 (- 3)]
   \<and> truncate_toward_zero (29 / 10) = 2 \<and> truncate_toward_zero (- (29 / 10)) = - 2
   \<and> BackendMovePointer 2 (- 3)
       \<noteq> BackendMovePointer (truncate_toward_zero (29 / 10))
            (truncate_toward_zero (- (29 / 10)))"
  by (simp add: on_move_pointer_def Math_floor_def emit_def truncate_toward_zero_def)

section \<open>Hide timers\<close>

text \<open>
  C2. The claim is that at most one hide timer is pending at any time and that arming a
  hide timer cancels the previous one first. The \<open>hide-window\<close> handler calls
  \<open>setTimeout\<close> and overwrites \<open>hideTimeout\<close> without a \<open>clearTimeout\<close>: after
  two \<open>hide-window\<close> messages two hide timers are pending, and the two
  \<open>setTimeout\<close> calls are all the handler did.
\<close>

theorem hide_window_twice_two_timers:
  "map handle (pending_hide_timers
      (run single_display [Ipc (HideWindow 100), Ipc (HideWindow 200)] started)) = [0, 1]
   \<and> hideTimeout (run single_display [Ipc (HideWindow 100), Ipc (HideWindow 200)] started)
       = Some 1
   \<and> trace (run single_display [Ipc (HideWindow 100), Ipc (HideWindow 200)] started)
       = trace started @ [SetTimeout 0 HideCallback 100, SetTimeout 1 HideCallback 200]"
  by (simp add: pending_hide_timers_def on_hide_window_def setTimeout_def emit_def
      started_state)

text \<open>
  C4. The claim is that a show request whose query resolves while a hide timer is armed
  cancels it, and that no hide timer is pending once the show has completed.
  \<open>showMenu\<close> cancels the one timer \<open>hideTimeout\<close> refers to. After two
  \<open>hide-window\<close> messages the first timer has no handle any more: the show request
  cancels the second timer only, the first one stays pending, and when it fires it
  hides the window that was just shown.
\<close>

theorem showMenu_after_two_hides_leaves_timer:
  "map handle (pending_hide_timers
      (run single_display
         [Ipc (HideWindow 100), Ipc (HideWindow 200),
          ShowMenu (Inr \<lparr>pointerX = 100, pointerY = 50, windowClass = None\<rparr>)] started)) = [0]
   \<and> visible
       (run single_display
          [Ipc (HideWindow 100), Ipc (HideWindow 200),
           ShowMenu (Inr \<lparr>pointerX = 100, pointerY = 50, windowClass = None\<rparr>)] started)
   \<and> \<not> visible
       (run single_display
          [Ipc (HideWindow 100), Ipc (HideWindow 200),
           ShowMenu (Inr \<lparr>pointerX = 100, pointerY = 50, windowClass = None\<rparr>),
           TimerFires 0] started)"
  by (simp add: pending_hide_timers_def on_hide_window_def showMenu_defs started_state
      single_display_def timer_fires_def run_callback_def window_hide_def)

text \<open>
  When the timer that \<open>hideTimeout\<close> refers to is the only pending hide timer, the
  show request does what C4 says: \<open>clearTimeout\<close> is its first call and no hide timer
  is pending afterwards.
\<close>

lemma showMenu_cancels_the_handle:
  assumes "hideTimeout s = Some h"
    and "\<forall>t \<in> set (pending_hide_timers s). handle t = h"
  shows "pending_hide_timers (snd (showMenu el (Inr info) s)) = []"
    and "\<exists>rest. trace (snd (showMenu el (Inr info) s)) = trace s @ ClearTimeout h # rest"
proof -
  have "filter (\<lambda>t. callback t = HideCallback) (filter (\<lambda>t. handle t \<noteq> h) (timers s)) = []"
    using assms(2) by (auto simp add: pending_hide_timers_def filter_empty_conv)
  then show "pending_hide_timers (snd (showMenu el (Inr info) s)) = []"
    using assms(1)
    by (simp add: pending_hide_timers_def showMenu_defs split: option.splits list.splits)
  show "\<exists>rest. trace (snd (showMenu el (Inr info) s)) = trace s @ ClearTimeout h # rest"
    using assms(1) by (simp add: showMenu_defs split: option.splits list.splits)
qed

section \<open>Show requests\<close>

text \<open>
  C3. If the promise of \<open>getWMInfo\<close> rejects, \<open>showMenu\<close> does one thing: it writes
  the rejection to the error console. The window's bounds and visibility, the pending
  timers and \<open>hideTimeout\<close> are as before, no \<open>show-menu\<close> message is sent, no timer
  is armed, and no rejection is left unhandled.
\<close>

theorem showMenu_rejected_only_logs:
  "showMenu el (Inl err) s
     = (None, s\<lparr>trace := trace s @ [ConsoleError (''Failed to show menu: '' @ err)]\<rparr>)"
  by (simp add: showMenu_def showMenu_catch_def emit_def)

text \<open>
  C5. When the promise of \<open>getWMInfo\<close> resolves with the pointer at \<open>(px, py)\<close> and the
  display nearest to that point has work area \<open>(wx, wy, ww, wh)\<close>, the window's bounds
  after \<open>showMenu\<close> are exactly \<open>(wx, wy, ww + 1, wh + 1)\<close>.
\<close>

theorem showMenu_sets_bounds:
  assumes "workArea (getDisplayNearestPoint el (Point (pointerX info) (pointerY info)))
             = Rectangle wx wy ww wh"
  shows "bounds (snd (showMenu el (Inr info) s)) = Rectangle wx wy (ww + 1) (wh + 1)"
  using assms by (simp add: showMenu_defs split: option.splits list.splits)

text \<open>
  With two displays and the pointer at \<open>(2000, 300)\<close>, on the right display, the window
  moves from the primary display to the right one.
\<close>

theorem showMenu_sets_bounds_witness:
  "workArea (getDisplayNearestPoint two_displays (Point 2000 300)) = Rectangle 1920 0 2560 1400
   \<and> bounds (snd (showMenu two_displays
         (Inr \<lparr>pointerX = 2000, pointerY = 300, windowClass = Some ''kitty''\<rparr>) started))
       = Rectangle 1920 0 2561 1401"
proof -
  have w: "workArea (getDisplayNearestPoint two_displays
             (Point (pointerX \<lparr>pointerX = 2000, pointerY = 300, windowClass = Some ''kitty''\<rparr>)
                    (pointerY \<lparr>pointerX = 2000, pointerY = 300, windowClass = Some ''kitty''\<rparr>)))
           = Rectangle 1920 0 2560 1400"
    by (simp add: two_displays_def)
  show ?thesis
    using showMenu_sets_bounds [OF w, of started] by (simp add: two_displays_def)
qed

text \<open>
  C6. When the promise of \<open>getWMInfo\<close> resolves and the menu list is not empty,
  \<open>showMenu\<close> sends exactly one \<open>show-menu\<close> message: it carries the root node of the
  first menu of the list and the pointer position relative to the origin of the work
  area, \<open>(pointerX - wx, pointerY - wy)\<close>; the bounds are set as in C5.
\<close>

theorem showMenu_sends_first_menu:
  assumes "workArea (getDisplayNearestPoint el (Point (pointerX info) (pointerY info)))
             = Rectangle wx wy ww wh"
    and "menuSettings_get s = m # ms"
  shows "show_menu_messages (trace (snd (showMenu el (Inr info) s)))
           = show_menu_messages (trace s)
             @ [(nodes m, Point (pointerX info - wx) (pointerY info - wy))]
         \<and> bounds (snd (showMenu el (Inr info) s)) = Rectangle wx wy (ww + 1) (wh + 1)"
  using assms
  by (simp add: showMenu_defs show_menu_messages_append split: option.splits list.splits)

text \<open>
  The end-to-end example: one display with work area \<open>(0, 0, 1920, 1080)\<close>, the pointer
  at \<open>(100, 50)\<close> and no focused window.
\<close>

theorem showMenu_sends_first_menu_witness:
  "workArea (getDisplayNearestPoint single_display (Point 100 50)) = Rectangle 0 0 1920 1080
   \<and> menuSettings_get started = [createExampleMenu]
   \<and> show_menu_messages (trace (snd (showMenu single_display
         (Inr \<lparr>pointerX = 100, pointerY = 50, windowClass = None\<rparr>) started)))
       = [(nodes createExampleMenu, Point 100 50)]
   \<and> bounds (snd (showMenu single_display
         (Inr \<lparr>pointerX = 100, pointerY = 50, windowClass = None\<rparr>) started))
       = Rectangle 0 0 1921 1081"
proof -
  have w: "workArea (getDisplayNearestPoint single_display
             (Point (pointerX \<lparr>pointerX = 100, pointerY = 50, windowClass = None\<rparr>)
                    (pointerY \<lparr>pointerX = 100, pointerY = 50, windowClass = None\<rparr>)))
           = Rectangle 0 0 1920 1080"
    by (simp add: single_display_def)
  have m: "menuSettings_get started = createExampleMenu # []"
    by (simp add: menuSettings_get_def started_state)
  show ?thesis
    using showMenu_sends_first_menu [OF w m] w m by (simp add: started_no_messages)
qed

section \<open>Startup\<close>

text \<open>
  C7, as amended. If a backend exists and the menu settings hold no menu when \<open>init\<close>
  runs, the first thing \<open>init\<close> does is to store a list of exactly one menu, the
  generated example menu, whose root node has eight children. The change listeners, the
  backend's \<open>init\<close> and everything after it (window, handlers, tray, shortcut) come
  later, and the list is still that one menu when \<open>init\<close> ends, however it ends.
\<close>

theorem init_seeds_example_menu:
  assumes "backend s = Some b" and "menuSettings_get s = []"
  shows "menuSettings_get (snd (init el s)) = [createExampleMenu]
         \<and> (\<exists>rest. trace (snd (init el s))
               = trace s @ [MenuSettingsSet [createExampleMenu],
                            AppSettingsOnChange ''menuTheme'',
                            AppSettingsOnChange ''editorTheme'', BackendInit] @ rest)
         \<and> length (children (nodes createExampleMenu)) = 8"
  using assms root_has_eight_children
  by (simp add: init_def Let_def menuSettings_get_def menuSettings_set_def emit_def
      initWindow_def initRendererIPC_def split: option.splits prod.splits)

theorem init_seeds_example_menu_witness:
  "backend constructed = Some working_backend \<and> menuSettings_get constructed = []
   \<and> menuSettings_get (snd (init single_display constructed)) = [createExampleMenu]
   \<and> take 4 (trace (snd (init single_display constructed)))
       = [MenuSettingsSet [createExampleMenu], AppSettingsOnChange ''menuTheme'',
          AppSettingsOnChange ''editorTheme'', BackendInit]
   \<and> length (children (nodes createExampleMenu)) = 8"
proof -
  have b: "backend constructed = Some working_backend"
    by (simp add: constructed_def)
  have e: "menuSettings_get constructed = []"
    by (simp add: constructed_def menuSettings_get_def)
  have t: "trace constructed = []"
    by (simp add: constructed_def)
  show ?thesis
    using init_seeds_example_menu [OF b e, of single_display] b e t by auto
qed

text \<open>
  C7, as stated, fails: it asks for the seeding whenever the store holds no menu. Without
  a backend the check of \<open>this.backend\<close> comes first and throws, so \<open>init\<close> ends
  with the store still empty and without having called \<open>menuSettings.set\<close>.
\<close>

theorem init_seeding_counterexample:
  "menuSettings_get (constructed\<lparr>backend := None\<rparr>) = []
   \<and> fst (init single_display (constructed\<lparr>backend := None\<rparr>))
       = Some ''Error: No backend found.''
   \<and> menuSettings_get (snd (init single_display (constructed\<lparr>backend := None\<rparr>))) = []
   \<and> menuSettings_get (snd (init single_display (constructed\<lparr>backend := None\<rparr>)))
       \<noteq> [createExampleMenu]
   \<and> MenuSettingsSet [createExampleMenu]
       \<notin> set (trace (snd (init single_display (constructed\<lparr>backend := None\<rparr>))))"
  by (simp add: init_def constructed_def menuSettings_get_def)

text \<open>
  C9. If there is no backend when \<open>init\<close> is called, \<open>init\<close> throws and has done
  nothing: the state, with its trace of calls, is the one it was called in.
\<close>

theorem init_without_backend_throws:
  assumes "backend s = None"
  shows "init el s = (Some ''Error: No backend found.'', s)"
  using assms by (simp add: init_def)

theorem init_without_backend_throws_witness:
  "backend (constructed\<lparr>backend := None\<rparr>) = None
   \<and> init single_display (constructed\<lparr>backend := None\<rparr>)
       = (Some ''Error: No backend found.'', constructed\<lparr>backend := None\<rparr>)
   \<and> trace (snd (init single_display (constructed\<lparr>backend := None\<rparr>))) = []"
proof -
  have b: "backend (constructed\<lparr>backend := None\<rparr>) = None"
    by simp
  show ?thesis
    using init_without_backend_throws [OF b, of single_display] b
    by (simp add: constructed_def)
qed

section \<open>Action messages\<close>

text \<open>
  C8. The handlers of \<open>simulate-keys\<close> and \<open>open-uri\<close> hide the window at once, by
  a direct \<open>window.hide()\<close> and without arming a timer, and then relay to the backend
  or to the shell. The handler of \<open>move-pointer\<close> leaves the visibility as it is.
\<close>

theorem action_messages_visibility:
  "visible (ipcMain_on (SimulateKeys ks) s) = False
   \<and> timers (ipcMain_on (SimulateKeys ks) s) = timers s
   \<and> trace (ipcMain_on (SimulateKeys ks) s) = trace s @ [WindowHide, BackendSimulateKeys ks]
   \<and> visible (ipcMain_on (OpenUri uri) s) = False
   \<and> timers (ipcMain_on (OpenUri uri) s) = timers s
   \<and> trace (ipcMain_on (OpenUri uri) s) = trace s @ [WindowHide, ShellOpenExternal uri]
   \<and> visible (ipcMain_on (MovePointer dx dy) s) = visible s"
  by (simp add: on_simulate_keys_def on_open_uri_def on_move_pointer_def window_hide_def
      emit_def)

text \<open>
  C10. The handlers of \<open>simulate-keys\<close> and \<open>open-uri\<close> leave \<open>hideTimeout\<close> and
  the pending timers as they are. A hide timer that was pending before the message is
  pending after it, on a window that is hidden now; when it fires, \<open>window.hide()\<close> is
  called once more and \<open>hideTimeout\<close> becomes \<open>null\<close>.
\<close>

theorem action_messages_keep_hide_timer:
  assumes "m = SimulateKeys ks \<or> m = OpenUri uri"
    and "find (\<lambda>t. handle t = h) (timers s) = Some t"
    and "callback t = HideCallback"
  shows "hideTimeout (ipcMain_on m s) = hideTimeout s
         \<and> timers (ipcMain_on m s) = timers s
         \<and> find (\<lambda>t. handle t = h) (timers (ipcMain_on m s)) = Some t
         \<and> \<not> visible (ipcMain_on m s)
         \<and> timer_fires h (ipcMain_on m s)
             = (ipcMain_on m s)
                 \<lparr>timers := filter (\<lambda>t. handle t \<noteq> h) (timers s),
                  hideTimeout := None,
                  trace := trace (ipcMain_on m s) @ [WindowHide]\<rparr>"
  using assms
  by (auto simp add: on_simulate_keys_def on_open_uri_def window_hide_def emit_def
      timer_fires_def run_callback_def)

text \<open>
  A \<open>hide-window\<close> message with delay 100 arms timer 0; the \<open>simulate-keys\<close> message
  that follows hides the window and leaves the timer; the timer then fires.
\<close>

theorem action_messages_keep_hide_timer_witness:
  "find (\<lambda>t. handle t = 0) (timers (ipcMain_on (HideWindow 100) started))
     = Some \<lparr>handle = 0, callback = HideCallback, delay = 100\<rparr>
   \<and> hideTimeout (ipcMain_on (SimulateKeys ''a'') (ipcMain_on (HideWindow 100) started))
       = Some 0
   \<and> map handle (timers (ipcMain_on (SimulateKeys ''a'') (ipcMain_on (HideWindow 100) started)))
       = [0]
   \<and> hideTimeout (timer_fires 0
         (ipcMain_on (SimulateKeys ''a'') (ipcMain_on (HideWindow 100) started))) = None
   \<and> timers (timer_fires 0
         (ipcMain_on (SimulateKeys ''a'') (ipcMain_on (HideWindow 100) started))) = []"
proof -
  have f: "find (\<lambda>t. handle t = 0) (timers (ipcMain_on (HideWindow 100) started))
             = Some \<lparr>handle = 0, callback = HideCallback, delay = 100\<rparr>"
    by (simp add: on_hide_window_def setTimeout_def emit_def started_state)
  have c: "callback \<lparr>handle = 0, callback = HideCallback, delay = 100\<rparr> = HideCallback"
    by simp
  have h: "hideTimeout (ipcMain_on (HideWindow 100) started) = Some 0"
    by (simp add: on_hide_window_def setTimeout_def emit_def started_state)
  have t: "timers (ipcMain_on (HideWindow 100) started)
             = [\<lparr>handle = 0, callback = HideCallback, delay = 100\<rparr>]"
    by (simp add: on_hide_window_def setTimeout_def emit_def started_state)
  show ?thesis
    using action_messages_keep_hide_timer
      [where m = "SimulateKeys ''a''" and ks = "''a''" and uri = "[]", OF _ f c] f h t
    by simp
qed

end
